theory Spec2Isabelle
  imports Main "HOL-Library.Word" "HOL-Library.Sublist"
begin

section \<open>JavaScript strings\<close>

text \<open>
  A JavaScript string is a sequence of UTF-16 code units, and \<^verbatim>\<open>===\<close> on two strings
  compares them code unit by code unit. A string is therefore a list of 16-bit words
  and \<^verbatim>\<open>===\<close> is HOL equality.
\<close>

type_synonym code_unit = "16 word"
type_synonym js_string = "code_unit list"

text \<open>String literals of the source, all of them ASCII, are written \<open>ascii ''...''\<close>.\<close>

definition ascii :: "string \<Rightarrow> js_string" where
  "ascii s = map (\<lambda>c. of_nat (of_char c)) s"

text \<open>
  \<^verbatim>\<open>String.prototype.trim\<close> removes the code points of the ECMAScript productions
  WhiteSpace and LineTerminator from both ends: TAB, LF, VT, FF, CR, SPACE, NBSP,
  U+1680, U+2000 to U+200A, U+2028, U+2029, U+202F, U+205F, U+3000 and U+FEFF (BOM).
  All of them are single code units.
\<close>

definition is_js_whitespace :: "code_unit \<Rightarrow> bool" where
  "is_js_whitespace c \<longleftrightarrow>
     c = 0x0009 \<or> c = 0x000A \<or> c = 0x000B \<or> c = 0x000C \<or> c = 0x000D \<or> c = 0x0020 \<or>
     c = 0x00A0 \<or> c = 0x1680 \<or> (0x2000 \<le> c \<and> c \<le> 0x200A) \<or>
     c = 0x2028 \<or> c = 0x2029 \<or> c = 0x202F \<or> c = 0x205F \<or> c = 0x3000 \<or> c = 0xFEFF"

definition trimStart :: "js_string \<Rightarrow> js_string" where
  "trimStart s = dropWhile is_js_whitespace s"

definition trimEnd :: "js_string \<Rightarrow> js_string" where
  "trimEnd s = rev (dropWhile is_js_whitespace (rev s))"

definition trim :: "js_string \<Rightarrow> js_string" where
  "trim s = trimEnd (trimStart s)"

text \<open>\<^verbatim>\<open>s.startsWith(p)\<close>: the first \<open>length p\<close> code units of \<open>s\<close> are \<open>p\<close>.\<close>

definition startsWith :: "js_string \<Rightarrow> js_string \<Rightarrow> bool" where
  "startsWith s p \<longleftrightarrow> take (length p) s = p"

section \<open>The trigger detector (sources/hooks/useCommandDetector.ts)\<close>

text \<open>
  \<^verbatim>\<open>
  export function useCommandDetector(text: string, trigger: string) {
      const trimmedText = text.trim();
      const isActive = trimmedText === trigger;
      const clear = React.useCallback(() => { return ''; }, []);
      return { isActive, clear };
  }
  \<close>
  The result is a record of the flag and of the \<open>clear\<close> callback; the callback takes no
  argument and closes over nothing.
\<close>

record UseCommandDetectorResult =
  isActive :: bool
  clear :: "unit \<Rightarrow> js_string"

definition useCommandDetector :: "js_string \<Rightarrow> js_string \<Rightarrow> UseCommandDetectorResult" where
  "useCommandDetector text trigger =
     (let trimmedText = trim text;
          isActive = (trimmedText = trigger);
          clear = (\<lambda>_. [])
      in \<lparr> isActive = isActive, clear = clear \<rparr>)"

section \<open>JavaScript numbers used as list indices\<close>

text \<open>
  \<^verbatim>\<open>selectedIndex\<close> is a JavaScript number, a double. The handler only subtracts one,
  adds one, compares with zero and takes a remainder by an array length, so from an
  integer the values that occur are integers and \<^verbatim>\<open>NaN\<close> (the remainder by zero).
  \<open>Num n\<close> is the double whose value is the integer \<open>n\<close>. A double has 53 significant
  bits: every integer up to \<open>2^53\<close> in size is a double, and beyond it a sum or a
  difference is rounded to the nearest double, a tie going to the even significand.
  The remainder of two doubles is exact. Fractions and infinities are left out: adding
  or subtracting one never leaves the finite range, and an array length is an integer.
  \<^verbatim>\<open>%\<close> truncates: the sign of the result is the sign of the dividend.
\<close>

datatype js_number = Num int | NaN

text \<open>
  The gap between neighbouring doubles at the size \<open>m\<close>: \<open>1\<close> below \<open>2^53\<close>, \<open>2\<close> from
  there to \<open>2^54\<close>, and doubling with every further bit.
\<close>

function spacing :: "int \<Rightarrow> int" where
  "spacing m = (if m < 2 ^ 53 then 1 else 2 * spacing (m div 2))"
  by pat_completeness auto
termination
  by (relation "measure nat") auto

declare spacing.simps [simp del]

definition round_to_double :: "int \<Rightarrow> int" where
  "round_to_double n =
     (if \<bar>n\<bar> \<le> 2 ^ 53 then n
      else
        (let m = \<bar>n\<bar>;
             s = spacing m;
             q = m div s;
             r = m mod s;
             q' = (if s < 2 * r \<or> (2 * r = s \<and> odd q) then q + 1 else q)
         in sgn n * (q' * s)))"

fun js_gt :: "js_number \<Rightarrow> js_number \<Rightarrow> bool" where
  "js_gt (Num a) (Num b) = (b < a)"
| "js_gt _ _ = False"

fun js_add :: "js_number \<Rightarrow> js_number \<Rightarrow> js_number" where
  "js_add (Num a) (Num b) = Num (round_to_double (a + b))"
| "js_add _ _ = NaN"

fun js_sub :: "js_number \<Rightarrow> js_number \<Rightarrow> js_number" where
  "js_sub (Num a) (Num b) = Num (round_to_double (a - b))"
| "js_sub _ _ = NaN"

fun js_rem :: "js_number \<Rightarrow> js_number \<Rightarrow> js_number" where
  "js_rem (Num a) (Num b) = (if b = 0 then NaN else Num (sgn a * (\<bar>a\<bar> mod \<bar>b\<bar>)))"
| "js_rem _ _ = NaN"

text \<open>\<^verbatim>\<open>xs.length\<close> as a number.\<close>

definition js_length :: "'a list \<Rightarrow> js_number" where
  "js_length xs = Num (int (length xs))"

text \<open>An index that addresses an element of \<open>xs\<close>: an integer in \<open>[0, length xs)\<close>.\<close>

fun valid_index :: "js_number \<Rightarrow> 'a list \<Rightarrow> bool" where
  "valid_index (Num i) xs = (0 \<le> i \<and> i < int (length xs))"
| "valid_index NaN xs = False"

section \<open>The palette's key handler (sources/components/CommandPalette.tsx)\<close>

text \<open>
  An item carries an id, a label and an optional icon; the icon is a React node, opaque
  here. Of the props, the handler reads \<^verbatim>\<open>visible\<close>, \<^verbatim>\<open>items\<close> and
  \<^verbatim>\<open>selectedIndex\<close>; \<^verbatim>\<open>title\<close>, \<^verbatim>\<open>maxHeight\<close>, \<^verbatim>\<open>emptyMessage\<close> and
  \<^verbatim>\<open>emptyIcon\<close> only reach the rendering. The callbacks \<^verbatim>\<open>onSelect\<close> and
  \<^verbatim>\<open>onClose\<close> belong to the owner of the component: a call of one of them is recorded
  as an effect, in the order the handler makes it, together with
  \<^verbatim>\<open>event.preventDefault()\<close> and \<^verbatim>\<open>hapticsLight()\<close>.
\<close>

typedecl react_node

record CommandItem =
  item_id :: js_string
  label :: js_string
  icon :: "react_node option"

record CommandPaletteProps =
  visible :: bool
  items :: "CommandItem list"
  selectedIndex :: js_number

datatype palette_effect = OnClose | PreventDefault | HapticsLight | OnSelect js_number

text \<open>
  \<^verbatim>\<open>
  const handleSelect = (index: number) => { hapticsLight(); props.onSelect(index); };
  \<close>
\<close>

definition handleSelect :: "js_number \<Rightarrow> palette_effect list" where
  "handleSelect index = [HapticsLight, OnSelect index]"

text \<open>
  \<^verbatim>\<open>
  const handleKeyPress = (event: React.KeyboardEvent) => {
      if (!props.visible) return;
      if (event.key === 'Escape') {
          props.onClose();
      } else if (event.key === 'ArrowUp') {
          event.preventDefault();
          const newIndex = props.selectedIndex > 0 ? props.selectedIndex - 1 : props.items.length - 1;
          props.onSelect(newIndex);
      } else if (event.key === 'ArrowDown') {
          event.preventDefault();
          const newIndex = (props.selectedIndex + 1) % props.items.length;
          props.onSelect(newIndex);
      } else if (event.key === 'Enter' && props.items.length > 0) {
          event.preventDefault();
          handleSelect(props.selectedIndex);
      }
  };
  \<close>
\<close>

definition handleKeyPress :: "CommandPaletteProps \<Rightarrow> js_string \<Rightarrow> palette_effect list" where
  "handleKeyPress props key =
     (if \<not> visible props then []
      else if key = ascii ''Escape'' then [OnClose]
      else if key = ascii ''ArrowUp'' then
        (let newIndex = (if js_gt (selectedIndex props) (Num 0)
                         then js_sub (selectedIndex props) (Num 1)
                         else js_sub (js_length (items props)) (Num 1))
         in [PreventDefault, OnSelect newIndex])
      else if key = ascii ''ArrowDown'' then
        (let newIndex = js_rem (js_add (selectedIndex props) (Num 1)) (js_length (items props))
         in [PreventDefault, OnSelect newIndex])
      else if key = ascii ''Enter'' \<and> js_gt (js_length (items props)) (Num 0) then
        PreventDefault # handleSelect (selectedIndex props)
      else [])"

text \<open>
  Modelled from the spec: the owner of the palette, the component that renders
  \<^verbatim>\<open>CommandPalette\<close> and holds the selection state, is not among the sources. It is
  taken as the specification and the design documents describe it (the selection state
  is ``owned by the presentation layer''; ``wire up command palette state
  (visible/selected/onClose)''; ``Escape key always closes palette''): it keeps the index
  handed to \<^verbatim>\<open>onSelect\<close> as the next \<^verbatim>\<open>selectedIndex\<close>, hides the palette on
  \<^verbatim>\<open>onClose\<close>, and leaves the items alone.
\<close>

fun owner_apply :: "CommandPaletteProps \<Rightarrow> palette_effect \<Rightarrow> CommandPaletteProps" where
  "owner_apply props (OnSelect index) = props\<lparr>selectedIndex := index\<rparr>"
| "owner_apply props OnClose = props\<lparr>visible := False\<rparr>"
| "owner_apply props _ = props"

definition press :: "CommandPaletteProps \<Rightarrow> js_string \<Rightarrow> CommandPaletteProps" where
  "press props key = foldl owner_apply props (handleKeyPress props key)"

definition presses :: "CommandPaletteProps \<Rightarrow> js_string list \<Rightarrow> CommandPaletteProps" where
  "presses props keys = foldl press props keys"

section \<open>The command registry (design of the slash commands, section 1)\<close>

text \<open>
  \<^verbatim>\<open>
  interface SlashCommand {
    id: string; trigger: string; name: string; description: string; icon?: string;
    type: 'rpc' | 'message'; rpcName?: string; requiresSession?: boolean;
    customHandler?: () => void;
  }
  \<close>
  An optional field is an \<open>option\<close>, \<open>None\<close> for \<^verbatim>\<open>undefined\<close>. The custom handler is
  a function value, opaque here.
\<close>

datatype command_type = Rpc | Message

typedecl js_function

record SlashCommand =
  cmd_id :: js_string
  trigger :: js_string
  name :: js_string
  description :: js_string
  cmd_icon :: "js_string option"
  cmd_type :: command_type
  rpcName :: "js_string option"
  requiresSession :: "bool option"
  customHandler :: "js_function option"

definition model_command :: SlashCommand where
  "model_command =
     \<lparr> cmd_id = ascii ''model'', trigger = ascii ''/model'', name = ascii ''Select Model'',
       description = ascii ''Change the AI model'', cmd_icon = Some (ascii ''cpu''),
       cmd_type = Rpc, rpcName = Some (ascii ''setModel''), requiresSession = Some True,
       customHandler = None \<rparr>"

definition SLASH_COMMANDS :: "SlashCommand list" where
  "SLASH_COMMANDS = [model_command]"

section \<open>The candidate filter (design of the slash commands, section 5, AgentInput)\<close>

text \<open>
  \<^verbatim>\<open>
  React.useEffect(() => {
    const trimmed = props.value.trim();
    if (trimmed === '/') {
      setShowCommandPalette(true); setShowAutocomplete(false);
      setFilteredCommands(SLASH_COMMANDS);
    } else if (trimmed.startsWith('/')) {
      const matches = SLASH_COMMANDS.filter(cmd => cmd.trigger.startsWith(trimmed));
      setShowCommandPalette(false); setShowAutocomplete(matches.length > 0);
      setFilteredCommands(matches);
    } else {
      setShowCommandPalette(false); setShowAutocomplete(false);
      setFilteredCommands([]);
    }
  }, [props.value]);
  \<close>
  Every branch sets all three state variables, so the state after the effect is a
  function of the input text and of the registry. The registry is a parameter;
  the source passes \<open>SLASH_COMMANDS\<close>.
\<close>

record command_ui =
  showCommandPalette :: bool
  showAutocomplete :: bool
  filteredCommands :: "SlashCommand list"

definition detectCommandTriggers :: "SlashCommand list \<Rightarrow> js_string \<Rightarrow> command_ui" where
  "detectCommandTriggers registry val =
     (let trimmed = trim val in
      if trimmed = ascii ''/'' then
        \<lparr> showCommandPalette = True, showAutocomplete = False, filteredCommands = registry \<rparr>
      else if startsWith trimmed (ascii ''/'') then
        (let matches = filter (\<lambda>cmd. startsWith (trigger cmd) trimmed) registry in
         \<lparr> showCommandPalette = False, showAutocomplete = (0 < length matches),
           filteredCommands = matches \<rparr>)
      else
        \<lparr> showCommandPalette = False, showAutocomplete = False, filteredCommands = [] \<rparr>)"

section \<open>The command executor (design of the slash commands, section 4)\<close>

text \<open>
  A call either returns a value or throws; a thrown value is an \<^verbatim>\<open>Error\<close> object with
  its message, or anything else. An awaited promise that rejects throws at the
  \<^verbatim>\<open>await\<close>. A computation is the list of the effects it made, in order, and how it
  completed.
\<close>

datatype thrown = ErrorObject js_string | NonError

datatype 'a completion = Returns 'a | Throws thrown

type_synonym ('e, 'a) computation = "'e list \<times> 'a completion"

text \<open>\<^verbatim>\<open>try { body } catch (error) { handler(error) }\<close> and \<^verbatim>\<open>try { body } finally { effects }\<close>.\<close>

definition try_catch ::
  "('e, 'a) computation \<Rightarrow> (thrown \<Rightarrow> ('e, 'a) computation) \<Rightarrow> ('e, 'a) computation" where
  "try_catch body handler =
     (case body of
        (effs, Returns v) \<Rightarrow> (effs, Returns v)
      | (effs, Throws error) \<Rightarrow> (case handler error of (effs', c) \<Rightarrow> (effs @ effs', c)))"

definition try_finally :: "('e, 'a) computation \<Rightarrow> 'e list \<Rightarrow> ('e, 'a) computation" where
  "try_finally body fin = (case body of (effs, c) \<Rightarrow> (effs @ fin, c))"

text \<open>
  The response of the remote call has the shape
  \<^verbatim>\<open>{ success: boolean; result?: T; message?: string }\<close>; \<open>success\<close> is the truthiness of
  the property, so an object without it has \<open>success = False\<close>. A response that is
  \<^verbatim>\<open>null\<close> or \<^verbatim>\<open>undefined\<close> is \<open>None\<close>.
\<close>

record 'r RpcResult =
  success :: bool
  result :: "'r option"
  message :: "js_string option"

text \<open>
  \<^verbatim>\<open>params?: any\<close> and \<^verbatim>\<open>params || {}\<close>: the parameters given when they are truthy, the
  empty object for every falsy value (\<^verbatim>\<open>undefined\<close>, \<^verbatim>\<open>null\<close>, \<^verbatim>\<open>false\<close>, a zero,
  \<^verbatim>\<open>NaN\<close>, the empty string).
\<close>

datatype falsy = Undefined | Null | BoolFalse | NumZero | NumNaN | EmptyString

datatype 'p js_any = Falsy falsy | Truthy 'p

datatype 'p rpc_params = EmptyObject | Given 'p

definition params_or_empty :: "'p js_any \<Rightarrow> 'p rpc_params" where
  "params_or_empty params = (case params of Falsy _ \<Rightarrow> EmptyObject | Truthy p \<Rightarrow> Given p)"

text \<open>
  The RPC channel is \<^verbatim>\<open>apiSocket.sessionRPC(sessionId, method, params)\<close>, a capability
  of the surrounding application: any function from its arguments to a completion.
  The method is \<^verbatim>\<open>command.rpcName!\<close>, which is \<^verbatim>\<open>undefined\<close> at run time when the
  command has none. \<^verbatim>\<open>getApiSyncSocket()\<close> returns the socket, or a falsy value when
  there is none, or throws. Reading \<^verbatim>\<open>.success\<close> of \<^verbatim>\<open>null\<close> or \<^verbatim>\<open>undefined\<close> throws a
  \<^verbatim>\<open>TypeError\<close> whose message is the engine's.
\<close>

type_synonym ('p, 'r) api_socket =
  "js_string \<Rightarrow> js_string option \<Rightarrow> 'p rpc_params \<Rightarrow> 'r RpcResult option completion"

record ('p, 'r) environment =
  getApiSyncSocket :: "('p, 'r) api_socket option completion"
  typeErrorMessage :: js_string

datatype 'p exec_effect =
    ModalAlert js_string js_string
  | SetIsExecuting bool
  | SocketSessionRPC js_string "js_string option" "'p rpc_params"

text \<open>\<^verbatim>\<open>error instanceof Error ? error.message : fallback\<close> and \<^verbatim>\<open>message || fallback\<close>.\<close>

definition error_message_or :: "thrown \<Rightarrow> js_string \<Rightarrow> js_string" where
  "error_message_or error fallback =
     (case error of ErrorObject m \<Rightarrow> m | NonError \<Rightarrow> fallback)"

definition message_or :: "js_string option \<Rightarrow> js_string \<Rightarrow> js_string" where
  "message_or msg fallback =
     (case msg of None \<Rightarrow> fallback | Some m \<Rightarrow> (if m = [] then fallback else m))"

text \<open>
  \<^verbatim>\<open>
  export async function sessionRPC(sessionId, method, params?) {
    try {
      const apiSocket = getApiSyncSocket();
      if (!apiSocket) { return { success: false, message: 'Not connected to session' }; }
      const response = await apiSocket.sessionRPC(sessionId, method, params || {});
      return response;
    } catch (error) {
      return { success: false,
               message: error instanceof Error ? error.message : 'RPC call failed' };
    }
  }
  \<close>
\<close>

definition sessionRPC ::
  "('p, 'r) environment \<Rightarrow> js_string \<Rightarrow> js_string option \<Rightarrow> 'p js_any
     \<Rightarrow> ('p exec_effect, 'r RpcResult option) computation" where
  "sessionRPC env sessionId method params =
     try_catch
       (case getApiSyncSocket env of
          Throws error \<Rightarrow> ([], Throws error)
        | Returns None \<Rightarrow>
            ([], Returns (Some \<lparr> success = False, result = None,
                                 message = Some (ascii ''Not connected to session'') \<rparr>))
        | Returns (Some apiSocket) \<Rightarrow>
            ([SocketSessionRPC sessionId method (params_or_empty params)],
             apiSocket sessionId method (params_or_empty params)))
       (\<lambda>error.
          ([], Returns (Some \<lparr> success = False, result = None,
                               message = Some (error_message_or error (ascii ''RPC call failed'')) \<rparr>)))"

text \<open>
  \<^verbatim>\<open>
  const executeCommand = async (command: SlashCommand, params?: any) => {
    if (command.requiresSession && !sessionId) {
      Modal.alert('Error', 'Please start a session first', [{ text: 'OK', style: 'cancel' }]);
      return;
    }
    setIsExecuting(true);
    try {
      if (command.type === 'rpc') {
        const result = await sessionRPC(sessionId, command.rpcName!, params);
        if (!result.success) {
          Modal.alert('Error', result.message || 'Command failed', [...]);
        }
      } else if (command.type === 'message') {
        // Send as message - to be implemented
      }
    } catch (error) {
      Modal.alert('Error', error instanceof Error ? error.message : 'Command failed', [...]);
    } finally {
      setIsExecuting(false);
    }
  };
  \<close>
  \<^verbatim>\<open>sessionId\<close> is a string, so \<^verbatim>\<open>!sessionId\<close> holds for the empty string only (the caller
  passes \<^verbatim>\<open>props.sessionId || ''\<close>). \<^verbatim>\<open>command.requiresSession\<close> is truthy when it is
  \<^verbatim>\<open>true\<close>.
\<close>

definition executeCommand_body ::
  "('p, 'r) environment \<Rightarrow> js_string \<Rightarrow> SlashCommand \<Rightarrow> 'p js_any
     \<Rightarrow> ('p exec_effect, unit) computation" where
  "executeCommand_body env sessionId command params =
     (case cmd_type command of
        Rpc \<Rightarrow>
          (case sessionRPC env sessionId (rpcName command) params of
             (effs, Throws error) \<Rightarrow> (effs, Throws error)
           | (effs, Returns None) \<Rightarrow> (effs, Throws (ErrorObject (typeErrorMessage env)))
           | (effs, Returns (Some res)) \<Rightarrow>
               (if \<not> success res
                then (effs @ [ModalAlert (ascii ''Error'')
                                (message_or (message res) (ascii ''Command failed''))],
                      Returns ())
                else (effs, Returns ())))
      | Message \<Rightarrow> ([], Returns ()))"

definition executeCommand ::
  "('p, 'r) environment \<Rightarrow> js_string \<Rightarrow> SlashCommand \<Rightarrow> 'p js_any
     \<Rightarrow> ('p exec_effect, unit) computation" where
  "executeCommand env sessionId command params =
     (if requiresSession command = Some True \<and> sessionId = [] then
        ([ModalAlert (ascii ''Error'') (ascii ''Please start a session first'')], Returns ())
      else
        (case try_finally
                (try_catch
                   (executeCommand_body env sessionId command params)
                   (\<lambda>error. ([ModalAlert (ascii ''Error'')
                                 (error_message_or error (ascii ''Command failed''))],
                              Returns ())))
                [SetIsExecuting False]
         of (effs, c) \<Rightarrow> (SetIsExecuting True # effs, c)))"

text \<open>What a run showed to the user, and what it sent over the channel.\<close>

fun alerts :: "'p exec_effect list \<Rightarrow> (js_string \<times> js_string) list" where
  "alerts [] = []"
| "alerts (ModalAlert t m # es) = (t, m) # alerts es"
| "alerts (_ # es) = alerts es"

fun remote_calls ::
  "'p exec_effect list \<Rightarrow> (js_string \<times> js_string option \<times> 'p rpc_params) list" where
  "remote_calls [] = []"
| "remote_calls (SocketSessionRPC s m p # es) = (s, m, p) # remote_calls es"
| "remote_calls (_ # es) = remote_calls es"

section \<open>Notions used in the statements\<close>

text \<open>
  ``\<open>x\<close> with leading and trailing whitespace stripped is \<open>y\<close>'', said without
  \<open>trim\<close>: \<open>x\<close> is \<open>y\<close> between two runs of whitespace, and \<open>y\<close> neither begins nor
  ends with whitespace. Whitespace inside \<open>y\<close> stays.
\<close>

definition strips_to :: "js_string \<Rightarrow> js_string \<Rightarrow> bool" where
  "strips_to x y \<longleftrightarrow>
     (\<exists>l r. x = l @ y @ r \<and> list_all is_js_whitespace l \<and> list_all is_js_whitespace r)
     \<and> (y = [] \<or> (\<not> is_js_whitespace (hd y) \<and> \<not> is_js_whitespace (last y)))"

text \<open>
  The remote call of a command failed: there is no socket, or getting it throws; or the
  call on the channel throws (a rejected promise: timeout, disconnect); or the response
  is \<^verbatim>\<open>null\<close> or \<^verbatim>\<open>undefined\<close>; or the response does not say \<open>success\<close>.
\<close>

definition remote_call_failed ::
  "('p, 'r) environment \<Rightarrow> js_string \<Rightarrow> SlashCommand \<Rightarrow> 'p js_any \<Rightarrow> bool" where
  "remote_call_failed env sessionId command params \<longleftrightarrow>
     (case getApiSyncSocket env of
        Throws _ \<Rightarrow> True
      | Returns None \<Rightarrow> True
      | Returns (Some apiSocket) \<Rightarrow>
          (case apiSocket sessionId (rpcName command) (params_or_empty params) of
             Throws _ \<Rightarrow> True
           | Returns None \<Rightarrow> True
           | Returns (Some res) \<Rightarrow> \<not> success res))"

text \<open>
  Modelled from the spec: the session as the specification has it, ``an opaque
  identifier plus a liveness flag, owned by the surrounding application'', and
  \<open>dispatch(command, session)\<close> on it. The sources have no such value: the executor is
  created with a session id, and the application passes \<^verbatim>\<open>props.sessionId || ''\<close>, the
  empty string when it has no session. The liveness flag reaches nothing in the code.
\<close>

record SessionReference =
  session_id :: js_string
  live :: bool

definition session_id_of :: "SessionReference option \<Rightarrow> js_string" where
  "session_id_of session = (case session of None \<Rightarrow> [] | Some s \<Rightarrow> session_id s)"

definition dispatch ::
  "('p, 'r) environment \<Rightarrow> SlashCommand \<Rightarrow> SessionReference option \<Rightarrow> 'p js_any
     \<Rightarrow> ('p exec_effect, unit) computation" where
  "dispatch env command session params =
     executeCommand env (session_id_of session) command params"

text \<open>Sample data for the concrete instances below.\<close>

definition sample_item :: "string \<Rightarrow> CommandItem" where
  "sample_item s = \<lparr> item_id = ascii s, label = ascii s, icon = None \<rparr>"

definition sample_command :: "string \<Rightarrow> SlashCommand" where
  "sample_command s =
     \<lparr> cmd_id = ascii s, trigger = ascii (CHR ''/'' # s), name = ascii s, description = ascii s,
       cmd_icon = None, cmd_type = Message, rpcName = None, requiresSession = None,
       customHandler = None \<rparr>"

definition empty_palette :: CommandPaletteProps where
  "empty_palette = \<lparr> visible = True, items = [], selectedIndex = Num 0 \<rparr>"

definition three_items :: CommandPaletteProps where
  "three_items =
     \<lparr> visible = True, items = [sample_item ''a'', sample_item ''b'', sample_item ''c''],
       selectedIndex = Num 0 \<rparr>"

text \<open>The session id the application passes when it has no session: \<^verbatim>\<open>props.sessionId || ''\<close>.\<close>

definition no_session :: js_string where
  "no_session = []"

text \<open>A session that has an id and is not live.\<close>

definition stale_session :: SessionReference where
  "stale_session = \<lparr> session_id = ascii ''s1'', live = False \<rparr>"

definition two_commands :: "SlashCommand list" where
  "two_commands = [sample_command ''model'', sample_command ''help'']"

text \<open>A connected socket whose call is rejected with a timeout, and one that succeeds.\<close>

definition timeout_socket :: "(unit, unit) api_socket" where
  "timeout_socket = (\<lambda>sessionId method params. Throws (ErrorObject (ascii ''timeout'')))"

definition ok_socket :: "(unit, unit) api_socket" where
  "ok_socket =
     (\<lambda>sessionId method params. Returns (Some \<lparr> success = True, result = None, message = None \<rparr>))"

definition env_of :: "(unit, unit) api_socket \<Rightarrow> (unit, unit) environment" where
  "env_of apiSocket =
     \<lparr> getApiSyncSocket = Returns (Some apiSocket), typeErrorMessage = ascii ''TypeError'' \<rparr>"

section \<open>Properties of \<open>trim\<close>\<close>

lemma trimStart_decomp: "s = takeWhile is_js_whitespace s @ trimStart s"
  by (simp add: trimStart_def)

lemma trimEnd_decomp: "s = trimEnd s @ rev (takeWhile is_js_whitespace (rev s))"
proof -
  have "rev (takeWhile is_js_whitespace (rev s) @ dropWhile is_js_whitespace (rev s)) = s"
    by (simp only: takeWhile_dropWhile_id rev_rev_ident)
  then show ?thesis by (simp only: rev_append trimEnd_def)
qed

lemma trimStart_append:
  "trimStart (l @ s) = (if list_all is_js_whitespace l then trimStart s else trimStart l @ s)"
  by (simp add: trimStart_def dropWhile_append list_all_iff)

lemma trimEnd_append:
  "trimEnd (s @ r) = (if list_all is_js_whitespace r then trimEnd s else s @ trimEnd r)"
  by (simp add: trimEnd_def dropWhile_append list_all_iff)

lemma trimStart_all_ws: "list_all is_js_whitespace s \<Longrightarrow> trimStart s = []"
  by (simp add: trimStart_def list_all_iff)

lemma trimEnd_all_ws: "list_all is_js_whitespace s \<Longrightarrow> trimEnd s = []"
  by (simp add: trimEnd_def list_all_iff)

lemma trimStart_Cons: "trimStart (c # s) = (if is_js_whitespace c then trimStart s else c # s)"
  by (simp add: trimStart_def)

lemma trimStart_clean: "s = [] \<or> \<not> is_js_whitespace (hd s) \<Longrightarrow> trimStart s = s"
  by (cases s) (auto simp: trimStart_def)

lemma trimEnd_clean: "s = [] \<or> \<not> is_js_whitespace (last s) \<Longrightarrow> trimEnd s = s"
  by (cases s rule: rev_cases) (auto simp: trimEnd_def)

lemma trimStart_hd: "trimStart s = [] \<or> \<not> is_js_whitespace (hd (trimStart s))"
  unfolding trimStart_def using hd_dropWhile by blast

lemma trimEnd_last: "trimEnd s = [] \<or> \<not> is_js_whitespace (last (trimEnd s))"
proof -
  have "dropWhile is_js_whitespace (rev s) = []
        \<or> \<not> is_js_whitespace (hd (dropWhile is_js_whitespace (rev s)))"
    using hd_dropWhile by blast
  then show ?thesis by (auto simp: trimEnd_def last_rev)
qed

lemma trimEnd_hd: "trimEnd s \<noteq> [] \<Longrightarrow> hd (trimEnd s) = hd s"
  by (metis trimEnd_decomp hd_append2)

text \<open>Whatever whitespace surrounds a clean middle part, \<open>trim\<close> returns the middle part.\<close>

lemma trim_sandwich:
  assumes "list_all is_js_whitespace l" "list_all is_js_whitespace r"
    and "m = [] \<or> (\<not> is_js_whitespace (hd m) \<and> \<not> is_js_whitespace (last m))"
  shows "trim (l @ m @ r) = m"
proof (cases "m = []")
  case True
  with assms have "list_all is_js_whitespace (l @ m @ r)" by simp
  then show ?thesis
    using True by (simp add: trim_def trimStart_all_ws trimEnd_all_ws del: list_all_append)
next
  case False
  with assms have h: "\<not> is_js_whitespace (hd m)" and l: "\<not> is_js_whitespace (last m)"
    by auto
  have "trimStart (l @ m @ r) = trimStart (m @ r)"
    using assms(1) by (simp add: trimStart_append)
  also have "\<dots> = m @ r"
    using False h by (intro trimStart_clean) (simp add: hd_append)
  finally have "trim (l @ m @ r) = trimEnd (m @ r)" by (simp add: trim_def)
  also have "\<dots> = trimEnd m" using assms(2) by (simp add: trimEnd_append)
  also have "\<dots> = m" using l by (intro trimEnd_clean) simp
  finally show ?thesis .
qed

lemma trim_strips: "strips_to s (trim s)"
proof -
  let ?l = "takeWhile is_js_whitespace s"
  let ?r = "rev (takeWhile is_js_whitespace (rev (trimStart s)))"
  have "s = ?l @ trimStart s" by (rule trimStart_decomp)
  also have "trimStart s = trim s @ ?r" unfolding trim_def by (rule trimEnd_decomp)
  finally have d: "s = ?l @ trim s @ ?r" .
  have wl: "list_all is_js_whitespace ?l"
    by (simp add: list_all_iff) (meson set_takeWhileD)
  have wr: "list_all is_js_whitespace ?r"
    by (simp add: list_all_iff) (meson set_takeWhileD)
  have e: "trim s = []
           \<or> (\<not> is_js_whitespace (hd (trim s)) \<and> \<not> is_js_whitespace (last (trim s)))"
  proof (cases "trim s = []")
    case True
    then show ?thesis by simp
  next
    case False
    then have ne: "trimEnd (trimStart s) \<noteq> []" by (simp add: trim_def)
    then have "trimStart s \<noteq> []" by (auto simp: trimEnd_def)
    then have "\<not> is_js_whitespace (hd (trimStart s))" using trimStart_hd by blast
    moreover have "hd (trim s) = hd (trimStart s)"
      unfolding trim_def using ne by (rule trimEnd_hd)
    moreover have "\<not> is_js_whitespace (last (trim s))"
      unfolding trim_def using ne trimEnd_last by blast
    ultimately show ?thesis by simp
  qed
  from d wl wr e show ?thesis unfolding strips_to_def by blast
qed

lemma strips_to_iff: "strips_to x y \<longleftrightarrow> trim x = y"
proof
  assume "strips_to x y"
  then show "trim x = y" unfolding strips_to_def using trim_sandwich by blast
next
  assume "trim x = y"
  then show "strips_to x y" using trim_strips by blast
qed

section \<open>The trigger detector\<close>

text \<open>
  C3. For every input text \<open>x\<close> and every trigger \<open>t\<close>, \<open>isActive\<close> is true exactly when \<open>x\<close>
  with its leading and trailing whitespace stripped is \<open>t\<close>, code unit by code unit (so
  case matters and whitespace inside is kept); the empty input is not active for a
  non-empty trigger. The last two conjuncts are the source's own examples: another
  case, and text after the trigger.
\<close>

theorem useCommandDetector_isActive_iff:
  "(isActive (useCommandDetector x t) \<longleftrightarrow> strips_to x t)
   \<and> (t \<noteq> [] \<longrightarrow> \<not> isActive (useCommandDetector [] t))
   \<and> \<not> isActive (useCommandDetector (ascii ''/Model'') (ascii ''/model''))
   \<and> \<not> isActive (useCommandDetector (ascii ''/model extra'') (ascii ''/model''))"
proof -
  have a: "isActive (useCommandDetector x t) \<longleftrightarrow> trim x = t" for x t
    by (simp add: useCommandDetector_def)
  have n: "trim [] = []"
    by (simp add: trim_def trimStart_def trimEnd_def)
  have c1: "trim (ascii ''/Model'') \<noteq> ascii ''/model''"
    by (simp add: ascii_def trim_def trimStart_def trimEnd_def is_js_whitespace_def)
  have c2: "trim (ascii ''/model extra'') \<noteq> ascii ''/model''"
    by (simp add: ascii_def trim_def trimStart_def trimEnd_def is_js_whitespace_def)
  show ?thesis using n c1 c2 by (auto simp: a strips_to_iff)
qed

theorem useCommandDetector_isActive_iff_witness:
  "ascii ''/model'' \<noteq> []
   \<and> \<not> isActive (useCommandDetector [] (ascii ''/model''))
   \<and> isActive (useCommandDetector (ascii ''  /model  '') (ascii ''/model''))
   \<and> strips_to (ascii ''  /model  '') (ascii ''/model'')"
proof -
  have ne: "ascii ''/model'' \<noteq> []" by (simp add: ascii_def)
  have act: "isActive (useCommandDetector (ascii ''  /model  '') (ascii ''/model''))"
    by (simp add: useCommandDetector_def ascii_def trim_def trimStart_def trimEnd_def
          is_js_whitespace_def)
  from useCommandDetector_isActive_iff [of "ascii ''  /model  ''" "ascii ''/model''"] ne act
  show ?thesis by blast
qed

text \<open>
  C8. For every input text and trigger, the \<open>clear\<close> operation that the detector returns
  gives the empty string: the callback ignores its environment.
\<close>

theorem clear_returns_empty: "clear (useCommandDetector x t) u = []"
  by (simp add: useCommandDetector_def)

text \<open>
  C10. The detector does not ask for a non-empty trigger: with the empty string as
  trigger, every input made of whitespace only, the empty input included, is active.
\<close>

theorem empty_trigger_active_on_whitespace:
  "list_all is_js_whitespace x \<Longrightarrow> isActive (useCommandDetector x [])"
  by (simp add: useCommandDetector_def trim_def trimStart_all_ws trimEnd_all_ws)

theorem empty_trigger_active_on_whitespace_witness:
  "list_all is_js_whitespace [0x20, 0x09, 0xA0]
   \<and> isActive (useCommandDetector [0x20, 0x09, 0xA0] [])
   \<and> list_all is_js_whitespace []
   \<and> isActive (useCommandDetector [] [])"
proof -
  have w: "list_all is_js_whitespace [0x20, 0x09, 0xA0]" by (simp add: is_js_whitespace_def)
  have e: "list_all is_js_whitespace []" by simp
  show ?thesis
    using w e empty_trigger_active_on_whitespace [OF w] empty_trigger_active_on_whitespace [OF e]
    by blast
qed

section \<open>The palette's key handler\<close>

lemma key_distinct:
  "ascii ''ArrowUp'' \<noteq> ascii ''Escape''" "ascii ''ArrowDown'' \<noteq> ascii ''Escape''"
  "ascii ''ArrowDown'' \<noteq> ascii ''ArrowUp''" "ascii ''Enter'' \<noteq> ascii ''Escape''"
  "ascii ''Enter'' \<noteq> ascii ''ArrowUp''" "ascii ''Enter'' \<noteq> ascii ''ArrowDown''"
  by (simp_all add: ascii_def)

lemma handleKeyPress_ArrowUp:
  "visible p \<Longrightarrow> handleKeyPress p (ascii ''ArrowUp'') =
     [PreventDefault,
      OnSelect (if js_gt (selectedIndex p) (Num 0) then js_sub (selectedIndex p) (Num 1)
                else js_sub (js_length (items p)) (Num 1))]"
  by (simp add: handleKeyPress_def key_distinct)

lemma handleKeyPress_ArrowDown:
  "visible p \<Longrightarrow> handleKeyPress p (ascii ''ArrowDown'') =
     [PreventDefault, OnSelect (js_rem (js_add (selectedIndex p) (Num 1)) (js_length (items p)))]"
  by (simp add: handleKeyPress_def key_distinct)

lemma handleKeyPress_Enter:
  "visible p \<Longrightarrow> handleKeyPress p (ascii ''Enter'') =
     (if items p = [] then [] else [PreventDefault, HapticsLight, OnSelect (selectedIndex p)])"
  by (simp add: handleKeyPress_def key_distinct handleSelect_def js_length_def)

text \<open>Up to \<open>2^53\<close> in size an integer is a double, and nothing is rounded.\<close>

lemma round_to_double_small: "\<bar>n\<bar> \<le> 2 ^ 53 \<Longrightarrow> round_to_double n = n"
  by (simp add: round_to_double_def)

text \<open>
  On a list that is not empty, from an index inside it, the arrows do what is asked of
  them: up from the first item goes to the last, down from the last goes to the first,
  and everywhere else the index moves by one. An array has fewer than \<open>2^32\<close> elements.
\<close>

lemma arrow_keys_wrap:
  assumes "visible p" "selectedIndex p = Num i" "0 \<le> i" "i < int (length (items p))"
    and "length (items p) < 2 ^ 32"
  shows "handleKeyPress p (ascii ''ArrowUp'') =
           [PreventDefault, OnSelect (Num (if i = 0 then int (length (items p)) - 1 else i - 1))]"
    and "handleKeyPress p (ascii ''ArrowDown'') =
           [PreventDefault, OnSelect (Num (if i = int (length (items p)) - 1 then 0 else i + 1))]"
proof -
  from assms(5) have b: "int (length (items p)) < 4294967296" by simp
  with assms(3,4) have r: "round_to_double (i - 1) = i - 1" "round_to_double (i + 1) = i + 1"
    "round_to_double (int (length (items p)) - 1) = int (length (items p)) - 1"
    by (simp_all add: round_to_double_small)
  show "handleKeyPress p (ascii ''ArrowUp'') =
           [PreventDefault, OnSelect (Num (if i = 0 then int (length (items p)) - 1 else i - 1))]"
    using assms(1-4) r by (auto simp: handleKeyPress_ArrowUp js_length_def)
  show "handleKeyPress p (ascii ''ArrowDown'') =
           [PreventDefault, OnSelect (Num (if i = int (length (items p)) - 1 then 0 else i + 1))]"
    using assms(1-4) r by (auto simp: handleKeyPress_ArrowDown js_length_def)
qed

text \<open>
  So an index inside the list stays inside it, whatever keys are pressed, as long as
  the owner keeps the index the handler reports.
\<close>

lemma press_valid:
  assumes "valid_index (selectedIndex p) (items p)" and "length (items p) < 2 ^ 32"
  shows "valid_index (selectedIndex (press p k)) (items p) \<and> items (press p k) = items p"
proof (cases "selectedIndex p")
  case NaN
  with assms(1) show ?thesis by simp
next
  case (Num i)
  with assms(1) have i: "0 \<le> i" "i < int (length (items p))" by simp_all
  from assms(2) have b: "int (length (items p)) < 4294967296" by simp
  with i have r: "round_to_double (i - 1) = i - 1" "round_to_double (i + 1) = i + 1"
    "round_to_double (int (length (items p)) - 1) = int (length (items p)) - 1"
    by (simp_all add: round_to_double_small)
  from Num i r show ?thesis
    by (auto simp: press_def handleKeyPress_def handleSelect_def js_length_def Let_def)
qed

lemma presses_valid:
  "valid_index (selectedIndex p) (items p) \<Longrightarrow> length (items p) < 2 ^ 32 \<Longrightarrow>
     valid_index (selectedIndex (presses p ks)) (items p) \<and> items (presses p ks) = items p"
proof (induction ks arbitrary: p)
  case Nil
  then show ?case by (simp add: presses_def)
next
  case (Cons k ks)
  from press_valid [OF Cons.prems, of k]
  have v: "valid_index (selectedIndex (press p k)) (items (press p k))"
    and i: "items (press p k) = items p" by simp_all
  from Cons.prems(2) i have l: "length (items (press p k)) < 2 ^ 32" by simp
  from Cons.IH [OF v l] i show ?case by (simp add: presses_def)
qed

text \<open>
  Beyond \<open>2^53\<close> the sum is rounded: from the index \<open>2^53\<close> in a list of three, ArrowDown
  reports \<open>2^53 mod 3 = 2\<close>, since \<open>2^53 + 1\<close> is no double.
\<close>

lemma arrow_down_rounds:
  "handleKeyPress (three_items\<lparr>selectedIndex := Num (2 ^ 53)\<rparr>) (ascii ''ArrowDown'')
     = [PreventDefault, OnSelect (Num 2)]"
proof -
  have "spacing 9007199254740993 = 2"
    by (simp add: spacing.simps)
  then have "round_to_double (2 ^ 53 + 1) = 2 ^ 53"
    by (simp add: round_to_double_def Let_def)
  then show ?thesis
    by (simp add: three_items_def handleKeyPress_ArrowDown js_length_def)
qed

lemma presses_three_items:
  "selectedIndex (presses three_items [ascii ''ArrowUp'', ascii ''ArrowDown'', ascii ''ArrowDown''])
     = Num 1"
  by (simp add: presses_def press_def three_items_def handleKeyPress_ArrowUp
        handleKeyPress_ArrowDown js_length_def round_to_double_def)

text \<open>
  C1. Claimed: the highlighted index is always undefined (empty list) or an integer in
  \<open>[0, length)\<close>, and the ArrowUp and ArrowDown handlers never produce an index outside
  the current list. On the visible palette with no items the handler does produce one:
  ArrowUp calls \<open>onSelect\<close> with \<open>-1\<close> and ArrowDown with \<open>NaN\<close> (the remainder by the
  length \<open>0\<close>). Only the Enter branch asks for a list that is not empty.
\<close>

theorem empty_list_arrow_index_out_of_range:
  "handleKeyPress empty_palette (ascii ''ArrowUp'') = [PreventDefault, OnSelect (Num (- 1))]
   \<and> \<not> valid_index (Num (- 1)) (items empty_palette)
   \<and> handleKeyPress empty_palette (ascii ''ArrowDown'') = [PreventDefault, OnSelect NaN]
   \<and> \<not> valid_index NaN (items empty_palette)"
  by (simp add: empty_palette_def handleKeyPress_ArrowUp handleKeyPress_ArrowDown js_length_def
        round_to_double_def)

text \<open>
  C2. Claimed: the arrows wrap around on a list that is not empty (this is
  \<open>arrow_keys_wrap\<close>) and do nothing on the empty list. On the empty list they are not
  no-ops: each prevents the default action and calls \<open>onSelect\<close>, and the owner's
  index changes from \<open>0\<close> to \<open>-1\<close> or to \<open>NaN\<close>.
\<close>

theorem empty_list_arrows_not_noop:
  "handleKeyPress empty_palette (ascii ''ArrowUp'') \<noteq> []
   \<and> handleKeyPress empty_palette (ascii ''ArrowDown'') \<noteq> []
   \<and> press empty_palette (ascii ''ArrowUp'') = empty_palette\<lparr>selectedIndex := Num (- 1)\<rparr>
   \<and> press empty_palette (ascii ''ArrowDown'') = empty_palette\<lparr>selectedIndex := NaN\<rparr>
   \<and> press empty_palette (ascii ''ArrowUp'') \<noteq> empty_palette
   \<and> press empty_palette (ascii ''ArrowDown'') \<noteq> empty_palette"
  by (simp add: press_def empty_palette_def handleKeyPress_ArrowUp handleKeyPress_ArrowDown
        js_length_def round_to_double_def)

text \<open>
  C9. When the items list is empty, pressing Enter does not call \<open>onSelect\<close>: the handler
  does nothing at all, whether the palette is visible or not.
\<close>

theorem enter_on_empty_list:
  "items p = [] \<Longrightarrow> handleKeyPress p (ascii ''Enter'') = []"
  by (simp add: handleKeyPress_def key_distinct js_length_def)

theorem enter_on_empty_list_witness:
  "visible empty_palette \<and> items empty_palette = []
   \<and> handleKeyPress empty_palette (ascii ''Enter'') = []
   \<and> handleKeyPress three_items (ascii ''Enter'')
       = [PreventDefault, HapticsLight, OnSelect (Num 0)]"
proof -
  have h: "items empty_palette = []" and v: "visible empty_palette"
    by (simp_all add: empty_palette_def)
  have c: "handleKeyPress three_items (ascii ''Enter'')
             = [PreventDefault, HapticsLight, OnSelect (Num 0)]"
    by (simp add: handleKeyPress_Enter three_items_def)
  from enter_on_empty_list [OF h] h v c show ?thesis by simp
qed

section \<open>The candidate filter\<close>

lemma startsWith_iff_prefix: "startsWith s p \<longleftrightarrow> prefix p s"
  unfolding startsWith_def by (metis append_eq_conv_conj prefix_def)

lemma slash_not_whitespace: "\<not> is_js_whitespace 0x2F"
  by (simp add: is_js_whitespace_def)

lemma ascii_slash: "ascii ''/'' = [0x2F]"
  by (simp add: ascii_def)

text \<open>
  C6. For every input text: when the trimmed input is exactly \<open>/\<close>, the candidates are the
  whole registry in its order (and the palette is shown); when the trimmed input starts
  with \<open>/\<close> and goes on, they are exactly the commands whose trigger starts with the
  trimmed input, in registry order (and the autocomplete is shown when there is one);
  when the trimmed input does not start with \<open>/\<close>, which covers the empty and the
  whitespace-only input, there are no candidates and both the palette and the
  autocomplete are hidden.
\<close>

theorem candidate_filter_modes:
  "(trim val = ascii ''/'' \<longrightarrow>
      filteredCommands (detectCommandTriggers registry val) = registry
      \<and> showCommandPalette (detectCommandTriggers registry val)
      \<and> \<not> showAutocomplete (detectCommandTriggers registry val))
   \<and> (prefix (ascii ''/'') (trim val) \<and> trim val \<noteq> ascii ''/'' \<longrightarrow>
      filteredCommands (detectCommandTriggers registry val)
        = filter (\<lambda>cmd. prefix (trim val) (trigger cmd)) registry
      \<and> \<not> showCommandPalette (detectCommandTriggers registry val)
      \<and> (showAutocomplete (detectCommandTriggers registry val)
           \<longleftrightarrow> filteredCommands (detectCommandTriggers registry val) \<noteq> []))
   \<and> (\<not> prefix (ascii ''/'') (trim val) \<longrightarrow>
      filteredCommands (detectCommandTriggers registry val) = []
      \<and> \<not> showCommandPalette (detectCommandTriggers registry val)
      \<and> \<not> showAutocomplete (detectCommandTriggers registry val))"
  by (auto simp: detectCommandTriggers_def Let_def startsWith_iff_prefix)

theorem candidate_filter_modes_witness:
  "trim (ascii '' / '') = ascii ''/''
   \<and> filteredCommands (detectCommandTriggers SLASH_COMMANDS (ascii '' / '')) = SLASH_COMMANDS
   \<and> prefix (ascii ''/'') (trim (ascii ''/mo'')) \<and> trim (ascii ''/mo'') \<noteq> ascii ''/''
   \<and> filteredCommands (detectCommandTriggers SLASH_COMMANDS (ascii ''/mo''))
       = filter (\<lambda>cmd. prefix (trim (ascii ''/mo'')) (trigger cmd)) SLASH_COMMANDS
   \<and> filteredCommands (detectCommandTriggers SLASH_COMMANDS (ascii ''/mo'')) = [model_command]
   \<and> \<not> prefix (ascii ''/'') (trim (ascii ''   ''))
   \<and> filteredCommands (detectCommandTriggers SLASH_COMMANDS (ascii ''   '')) = []
   \<and> \<not> showCommandPalette (detectCommandTriggers SLASH_COMMANDS (ascii ''   ''))
   \<and> \<not> showAutocomplete (detectCommandTriggers SLASH_COMMANDS (ascii ''   ''))"
proof -
  have t1: "trim (ascii '' / '') = ascii ''/''"
    by (simp add: ascii_def trim_def trimStart_def trimEnd_def is_js_whitespace_def)
  have t2: "trim (ascii ''/mo'') = ascii ''/mo''"
    by (simp add: ascii_def trim_def trimStart_def trimEnd_def is_js_whitespace_def)
  have t3: "trim (ascii ''   '') = []"
    by (simp add: ascii_def trim_def trimStart_def trimEnd_def is_js_whitespace_def)
  have h2: "prefix (ascii ''/'') (trim (ascii ''/mo'')) \<and> trim (ascii ''/mo'') \<noteq> ascii ''/''"
    by (simp add: t2) (simp add: ascii_def)
  have h3: "\<not> prefix (ascii ''/'') (trim (ascii ''   ''))"
    by (simp add: t3) (simp add: ascii_def)
  have m: "filter (\<lambda>cmd. prefix (trim (ascii ''/mo'')) (trigger cmd)) SLASH_COMMANDS
             = [model_command]"
    by (simp add: t2 SLASH_COMMANDS_def) (simp add: model_command_def ascii_def)
  from candidate_filter_modes [where val = "ascii '' / ''" and registry = SLASH_COMMANDS]
    candidate_filter_modes [where val = "ascii ''/mo''" and registry = SLASH_COMMANDS]
    candidate_filter_modes [where val = "ascii ''   ''" and registry = SLASH_COMMANDS]
    t1 h2 h3 m
  show ?thesis by simp
qed

lemma prefix_trimEnd: "prefix (trimEnd s) s"
  by (metis trimEnd_decomp prefixI)

lemma trimEnd_mono:
  assumes "prefix x y"
  shows "prefix (trimEnd x) (trimEnd y)"
proof -
  from assms obtain z where y: "y = x @ z" by (auto simp: prefix_def)
  show ?thesis
  proof (cases "list_all is_js_whitespace z")
    case True
    then show ?thesis by (simp add: y trimEnd_append)
  next
    case False
    then have "trimEnd y = x @ trimEnd z" by (simp add: y trimEnd_append)
    then show ?thesis using prefix_trimEnd [of x] by (metis prefix_order.trans prefixI)
  qed
qed

text \<open>An input that starts with \<open>/\<close> loses nothing at its start, and still starts with \<open>/\<close>.\<close>

lemma trim_slash:
  assumes "prefix (ascii ''/'') x"
  shows "trim x = trimEnd x" and "prefix (ascii ''/'') (trim x)"
proof -
  from assms obtain x' where x: "x = 0x2F # x'" by (auto simp: ascii_slash prefix_def)
  have t: "trim (0x2F # x') = trimEnd (0x2F # x')"
    by (simp add: trim_def trimStart_Cons slash_not_whitespace)
  have "trimEnd ([0x2F] @ x') = 0x2F # trimEnd x'"
    by (simp add: trimEnd_append trimEnd_all_ws trimEnd_clean slash_not_whitespace
          del: append.simps)
  then have e: "trimEnd (0x2F # x') = 0x2F # trimEnd x'" by simp
  show "trim x = trimEnd x" unfolding x by (rule t)
  show "prefix (ascii ''/'') (trim x)" unfolding x t e by (simp add: ascii_slash)
qed

text \<open>
  C7. For every registry and all inputs \<open>x\<close> and \<open>y\<close> that start with \<open>/\<close>: when \<open>x\<close> is a
  prefix of \<open>y\<close>, every candidate for \<open>y\<close> is a candidate for \<open>x\<close>.
\<close>

theorem narrowing_filter_monotone:
  assumes "prefix (ascii ''/'') x" "prefix (ascii ''/'') y" "prefix x y"
  shows "set (filteredCommands (detectCommandTriggers registry y))
           \<subseteq> set (filteredCommands (detectCommandTriggers registry x))"
proof -
  have px: "prefix (ascii ''/'') (trim x)" and py: "prefix (ascii ''/'') (trim y)"
    using assms trim_slash by blast+
  have m: "prefix (trim x) (trim y)"
    using trimEnd_mono [OF assms(3)] trim_slash(1) [OF assms(1)] trim_slash(1) [OF assms(2)]
    by simp
  have sub: "set (filteredCommands (detectCommandTriggers registry y)) \<subseteq> set registry"
    by (auto simp: detectCommandTriggers_def Let_def)
  show ?thesis
  proof (cases "trim x = ascii ''/''")
    case True
    then show ?thesis using sub by (simp add: detectCommandTriggers_def)
  next
    case False
    have ny: "trim y \<noteq> ascii ''/''"
    proof
      assume "trim y = ascii ''/''"
      with m px have "trim x = ascii ''/''" by (simp add: prefix_order.antisym)
      with False show False by simp
    qed
    from False ny px py m show ?thesis
      by (auto simp: detectCommandTriggers_def Let_def startsWith_iff_prefix)
  qed
qed

theorem narrowing_filter_monotone_witness:
  "prefix (ascii ''/'') (ascii ''/'') \<and> prefix (ascii ''/'') (ascii ''/m '')
   \<and> prefix (ascii ''/'') (ascii ''/m '')
   \<and> set (filteredCommands (detectCommandTriggers two_commands (ascii ''/m '')))
       \<subseteq> set (filteredCommands (detectCommandTriggers two_commands (ascii ''/'')))
   \<and> filteredCommands (detectCommandTriggers two_commands (ascii ''/m ''))
       = [sample_command ''model'']
   \<and> filteredCommands (detectCommandTriggers two_commands (ascii ''/'')) = two_commands"
proof -
  have p1: "prefix (ascii ''/'') (ascii ''/'')" and p2: "prefix (ascii ''/'') (ascii ''/m '')"
    by (simp_all add: ascii_def)
  have t1: "trim (ascii ''/'') = ascii ''/''" and t2: "trim (ascii ''/m '') = ascii ''/m''"
    by (simp_all add: ascii_def trim_def trimStart_def trimEnd_def is_js_whitespace_def)
  have e1: "filteredCommands (detectCommandTriggers two_commands (ascii ''/'')) = two_commands"
    by (simp add: detectCommandTriggers_def t1)
  have e2: "filteredCommands (detectCommandTriggers two_commands (ascii ''/m ''))
              = [sample_command ''model'']"
    by (simp add: detectCommandTriggers_def t2 two_commands_def sample_command_def)
       (simp add: ascii_def startsWith_def)
  from narrowing_filter_monotone [OF p1 p2 p2, of two_commands] p1 p2 e1 e2
  show ?thesis by simp
qed

section \<open>The command executor\<close>

lemma fallback_nonempty:
  "ascii ''Command failed'' \<noteq> []" "ascii ''RPC call failed'' \<noteq> []"
  "ascii ''Not connected to session'' \<noteq> []"
  by (simp_all add: ascii_def)

text \<open>The RPC helper catches everything: it returns, and it shows nothing itself.\<close>

lemma sessionRPC_returns:
  "\<exists>effs res. sessionRPC env sessionId method params = (effs, Returns res) \<and> alerts effs = []"
  by (auto simp: sessionRPC_def try_catch_def split: completion.splits option.splits)

lemma executeCommand_returns: "snd (executeCommand env sessionId command params) = Returns ()"
proof (cases "requiresSession command = Some True \<and> sessionId = []")
  case True
  then show ?thesis by (simp add: executeCommand_def)
next
  case False
  obtain effs res
    where s: "sessionRPC env sessionId (rpcName command) params = (effs, Returns res)"
    using sessionRPC_returns by blast
  show ?thesis
    using False s
    by (cases "cmd_type command"; cases res)
       (simp_all add: executeCommand_def executeCommand_body_def try_catch_def try_finally_def)
qed

text \<open>
  C4. Claimed: for every command that requires a session, dispatching with an absent or
  a non-live session fails towards the user and makes no remote call. The executor has
  the session id only, and its guard is \<^verbatim>\<open>command.requiresSession && !sessionId\<close>. So
  the claim holds for the absent session, the empty id: the run is the single alert
  ``Please start a session first'', before the executing flag is touched, and nothing
  goes over the channel.
\<close>

theorem session_guard_rejects:
  "requiresSession command = Some True \<Longrightarrow> sessionId = [] \<Longrightarrow>
     executeCommand env sessionId command params
       = ([ModalAlert (ascii ''Error'') (ascii ''Please start a session first'')], Returns ())
     \<and> remote_calls (fst (executeCommand env sessionId command params)) = []"
  by (simp add: executeCommand_def)

theorem session_guard_rejects_witness:
  "requiresSession model_command = Some True \<and> no_session = []
   \<and> executeCommand (env_of ok_socket) no_session model_command (Falsy Undefined)
       = ([ModalAlert (ascii ''Error'') (ascii ''Please start a session first'')], Returns ())
   \<and> remote_calls (fst (executeCommand (env_of ok_socket) no_session model_command (Falsy Undefined))) = []
   \<and> remote_calls (fst (executeCommand (env_of ok_socket) (ascii ''s1'') model_command (Falsy Undefined)))
       = [(ascii ''s1'', Some (ascii ''setModel''), EmptyObject)]"
proof -
  have r: "requiresSession model_command = Some True" by (simp add: model_command_def)
  have s: "no_session = []" by (simp add: no_session_def)
  have n: "ascii ''s1'' \<noteq> []" by (simp add: ascii_def)
  have c: "remote_calls (fst (executeCommand (env_of ok_socket) (ascii ''s1'') model_command (Falsy Undefined)))
             = [(ascii ''s1'', Some (ascii ''setModel''), EmptyObject)]"
    by (simp add: executeCommand_def executeCommand_body_def sessionRPC_def try_catch_def
          try_finally_def env_of_def ok_socket_def model_command_def params_or_empty_def n)
  from session_guard_rejects [OF r s, of "env_of ok_socket" "Falsy Undefined"] r s c
  show ?thesis by blast
qed

text \<open>
  For a session that is not live and has an id the claim fails: nothing in the code
  looks at liveness, the guard lets the command through, and with a connected socket
  the remote call is made and no error is shown.
\<close>

lemma nonempty_session_calls:
  assumes "sessionId \<noteq> []" "cmd_type command = Rpc"
    and "getApiSyncSocket env = Returns (Some apiSocket)"
  shows "remote_calls (fst (executeCommand env sessionId command params))
           = [(sessionId, rpcName command, params_or_empty params)]"
proof -
  obtain c where c: "apiSocket sessionId (rpcName command) (params_or_empty params) = c"
    by simp
  show ?thesis
    using assms c
    by (cases c)
       (auto simp: executeCommand_def executeCommand_body_def sessionRPC_def try_catch_def
          try_finally_def split: option.splits)
qed

theorem non_live_session_counterexample:
  "requiresSession model_command = Some True
   \<and> \<not> live stale_session
   \<and> dispatch (env_of ok_socket) model_command (Some stale_session) (Falsy Undefined)
       = ([SetIsExecuting True,
           SocketSessionRPC (ascii ''s1'') (Some (ascii ''setModel'')) EmptyObject,
           SetIsExecuting False], Returns ())
   \<and> remote_calls
        (fst (dispatch (env_of ok_socket) model_command (Some stale_session) (Falsy Undefined)))
       = [(ascii ''s1'', Some (ascii ''setModel''), EmptyObject)]
   \<and> alerts
        (fst (dispatch (env_of ok_socket) model_command (Some stale_session) (Falsy Undefined)))
       = []"
proof -
  have n: "ascii ''s1'' \<noteq> []" by (simp add: ascii_def)
  have d: "dispatch (env_of ok_socket) model_command (Some stale_session) (Falsy Undefined)
       = ([SetIsExecuting True,
           SocketSessionRPC (ascii ''s1'') (Some (ascii ''setModel'')) EmptyObject,
           SetIsExecuting False], Returns ())"
    by (simp add: dispatch_def session_id_of_def stale_session_def executeCommand_def
          executeCommand_body_def sessionRPC_def try_catch_def try_finally_def env_of_def
          ok_socket_def model_command_def params_or_empty_def n)
  show ?thesis
    unfolding d by (simp add: model_command_def stale_session_def)
qed

text \<open>
  C5. A run of the executor never throws, whatever the channel does. When the remote
  call of an RPC command fails in any way (no socket, an exception or a rejected promise
  from the channel, a \<^verbatim>\<open>null\<close> or \<^verbatim>\<open>undefined\<close> response, a response that does not say
  success), the failure ends in the executor as exactly one error alert carrying a
  message, and the message is not empty unless the engine's own \<^verbatim>\<open>TypeError\<close> text is.
\<close>

theorem transport_failure_contained:
  "snd (executeCommand env sessionId command params) = Returns ()
   \<and> (cmd_type command = Rpc
        \<and> \<not> (requiresSession command = Some True \<and> sessionId = [])
        \<and> remote_call_failed env sessionId command params \<longrightarrow>
      (\<exists>m. alerts (fst (executeCommand env sessionId command params)) = [(ascii ''Error'', m)]
           \<and> (m = [] \<longrightarrow> typeErrorMessage env = [])))"
proof (intro conjI impI)
  show "snd (executeCommand env sessionId command params) = Returns ()"
    by (rule executeCommand_returns)
next
  assume a: "cmd_type command = Rpc
        \<and> \<not> (requiresSession command = Some True \<and> sessionId = [])
        \<and> remote_call_failed env sessionId command params"
  then have g: "\<not> (requiresSession command = Some True \<and> sessionId = [])"
    and t: "cmd_type command = Rpc"
    and f: "remote_call_failed env sessionId command params" by simp_all
  show "\<exists>m. alerts (fst (executeCommand env sessionId command params)) = [(ascii ''Error'', m)]
           \<and> (m = [] \<longrightarrow> typeErrorMessage env = [])"
    using g t f fallback_nonempty
    by (auto simp: executeCommand_def executeCommand_body_def sessionRPC_def try_catch_def
          try_finally_def remote_call_failed_def error_message_or_def message_or_def
          split: completion.splits option.splits thrown.splits)
qed

theorem transport_failure_contained_witness:
  "cmd_type model_command = Rpc
   \<and> \<not> (requiresSession model_command = Some True \<and> ascii ''s1'' = [])
   \<and> remote_call_failed (env_of timeout_socket) (ascii ''s1'') model_command (Falsy Undefined)
   \<and> executeCommand (env_of timeout_socket) (ascii ''s1'') model_command (Falsy Undefined)
       = ([SetIsExecuting True,
           SocketSessionRPC (ascii ''s1'') (Some (ascii ''setModel'')) EmptyObject,
           ModalAlert (ascii ''Error'') (ascii ''timeout''),
           SetIsExecuting False], Returns ())
   \<and> (\<exists>m. alerts (fst (executeCommand (env_of timeout_socket) (ascii ''s1'') model_command (Falsy Undefined)))
             = [(ascii ''Error'', m)])"
proof -
  have t: "cmd_type model_command = Rpc" by (simp add: model_command_def)
  have n: "ascii ''s1'' \<noteq> []" by (simp add: ascii_def)
  have f: "remote_call_failed (env_of timeout_socket) (ascii ''s1'') model_command (Falsy Undefined)"
    by (simp add: remote_call_failed_def env_of_def timeout_socket_def)
  have e: "executeCommand (env_of timeout_socket) (ascii ''s1'') model_command (Falsy Undefined)
       = ([SetIsExecuting True,
           SocketSessionRPC (ascii ''s1'') (Some (ascii ''setModel'')) EmptyObject,
           ModalAlert (ascii ''Error'') (ascii ''timeout''),
           SetIsExecuting False], Returns ())"
    by (simp add: executeCommand_def executeCommand_body_def sessionRPC_def try_catch_def
          try_finally_def env_of_def timeout_socket_def model_command_def params_or_empty_def
          error_message_or_def message_or_def n)
       (simp add: ascii_def)
  from transport_failure_contained
         [of "env_of timeout_socket" "ascii ''s1''" model_command "Falsy Undefined"] t n f e
  show ?thesis by blast
qed

end
